theory Spec2Isabelle
  imports Main "HOL-Library.Word"
begin

section \<open>Library functions the sketches call\<close>

text \<open>
  The three sketches (simple: \<open>nrf52_hall/src/main.cpp\<close>, extended:
  \<open>nrf52_with_hall/nrf52_with_hall.ino\<close>, batched: \<open>unnamed/part_000\<close>) run on an nRF52
  (32-bit ARM): \<open>int\<close>, \<open>unsigned int\<close>, \<open>unsigned long\<close>, \<open>size_t\<close> and \<open>uint32_t\<close>
  are all 32 bits wide. The functions of this section belong to the C library and to the
  Arduino core, not to the repository; they are written after their documented behaviour.
\<close>

type_synonym uint32 = "32 word"
type_synonym uint8 = "8 word"

definition NUL :: char where
  "NUL = CHR 0x00"

text \<open>Decimal digits of a natural number, most significant first (\<open>%lu\<close>, \<open>itoa\<close>).\<close>

fun dec :: "nat \<Rightarrow> string" where
  "dec n = (if n < 10 then [''0123456789'' ! n]
            else dec (n div 10) @ [''0123456789'' ! (n mod 10)])"

declare dec.simps [simp del]

text \<open>\<open>%lu\<close> of a 32-bit unsigned value and \<open>%i\<close> of a 32-bit two's complement value.\<close>

definition fmt_lu :: "uint32 \<Rightarrow> string" where
  "fmt_lu w = dec (unat w)"

definition show_int :: "int \<Rightarrow> string" where
  "show_int i = (if i < 0 then CHR ''-'' # dec (nat (- i)) else dec (nat i))"

definition fmt_i :: "uint32 \<Rightarrow> string" where
  "fmt_i w = show_int (sint w)"

text \<open>
  \<open>atol\<close>, which \<open>String::toInt\<close> returns: leading white space is skipped, then an
  optional sign, then digits up to the first other character; no digits give 0. The
  sketches call it on at most two characters, where \<open>long\<close> cannot overflow.
\<close>

definition isspace :: "char \<Rightarrow> bool" where
  "isspace c = (of_char c = (32::nat) \<or> (9::nat) \<le> of_char c \<and> of_char c \<le> (13::nat))"

definition isdigit :: "char \<Rightarrow> bool" where
  "isdigit c = ((48::nat) \<le> of_char c \<and> of_char c \<le> (57::nat))"

fun atol_digits :: "int \<Rightarrow> string \<Rightarrow> int" where
  "atol_digits acc [] = acc"
| "atol_digits acc (c # cs) =
     (if isdigit c then atol_digits (acc * 10 + (int (of_char c) - 48)) cs else acc)"

definition atol :: "string \<Rightarrow> int" where
  "atol s = (case dropWhile isspace s of
               [] \<Rightarrow> 0
             | c # cs \<Rightarrow> if c = CHR ''-'' then - atol_digits 0 cs
                         else if c = CHR ''+'' then atol_digits 0 cs
                         else atol_digits 0 (c # cs))"

definition toInt :: "string \<Rightarrow> int" where
  "toInt s = atol s"

text \<open>
  \<open>String::substring(left, right)\<close>: the indices are swapped when out of order, a start at
  or past the end gives the empty string, and the end is clipped to the length.
  \<open>substring(left)\<close> is \<open>substring(left, length)\<close>.
\<close>

definition substring :: "nat \<Rightarrow> nat \<Rightarrow> string \<Rightarrow> string" where
  "substring left right s =
     (let l = (if left > right then right else left);
          r = (if left > right then left else right)
      in if l \<ge> length s then []
         else take (min r (length s) - l) (drop l s))"

definition substring_from :: "nat \<Rightarrow> string \<Rightarrow> string" where
  "substring_from left s = substring left (length s) s"

text \<open>
  \<open>inputString += ch\<close> with \<open>ch\<close> of type \<open>uint8_t\<close> selects
  \<open>String::operator+=(unsigned char)\<close>, which appends the decimal digits of the number
  (\<open>itoa(num, buf, 10)\<close>): the byte \<open>'1'\<close> (49) appends the two characters \<open>49\<close>. This is
  why the sketches read the action from \<open>substring(0, 2)\<close> and subtract 48.
\<close>

definition concat_uchar :: "string \<Rightarrow> uint8 \<Rightarrow> string" where
  "concat_uchar s ch = s @ dec (unat ch)"

section \<open>The command state shared by the three sketches\<close>

datatype recordingState = STOPPED | RECORDING

text \<open>
  What a tick sends out: text on the serial console and bytes on the BLE UART.
\<close>

datatype event = Serial string | Ble string

definition println :: "string \<Rightarrow> event" where
  "println s = Serial (s @ [CHR 0x0D, CHR 0x0A])"

text \<open>
  \<open>currentCommand\<close> is an enum variable that receives the cast of an arbitrary integer;
  it is kept as that integer. On two characters \<open>toInt\<close> lies between -9 and 99, so the
  value lies between -57 and 51 and the cast cannot turn another value into an enumerator.
\<close>

record controller =
  elapsedStartMillis :: uint32
  inputString :: string
  currentCommand :: int
  currentRecordingState :: recordingState
  hallValue :: uint32

definition STOP_RECORDING :: int where
  "STOP_RECORDING = 0"

definition START_RECORDING :: int where
  "START_RECORDING = 1"

text \<open>The \<open>while (bleuart.available())\<close> loop over the bytes that are waiting.\<close>

fun read_available :: "uint8 list \<Rightarrow> 'a controller_scheme \<Rightarrow> 'a controller_scheme" where
  "read_available [] s = s"
| "read_available (ch # rest) s =
     read_available rest (s\<lparr>inputString := concat_uchar (inputString s) ch\<rparr>)"

text \<open>
  The \<open>if\<close> chain on \<open>currentCommand\<close> of the simple and batched sketches
  (\<open>main.cpp\<close> 153-161, \<open>part_000\<close> 173-181); \<open>now\<close> is what \<open>millis()\<close> returns.
\<close>

definition apply_command ::
  "uint32 \<Rightarrow> 'a controller_scheme \<Rightarrow> 'a controller_scheme \<times> event list" where
  "apply_command now s =
     (if currentCommand s = STOP_RECORDING then
        (s\<lparr>currentRecordingState := STOPPED\<rparr>,
         [println ''received STOP_RECORDING command''])
      else if currentCommand s = START_RECORDING then
        (s\<lparr>currentRecordingState := RECORDING, elapsedStartMillis := now\<rparr>,
         [println ''received START_RECORDING command''])
      else (s, []))"

text \<open>The command block of the simple and batched sketches (\<open>main.cpp\<close> 147-163).\<close>

definition decode :: "'a controller_scheme \<Rightarrow> 'a controller_scheme" where
  "decode s = s\<lparr>currentCommand := toInt (substring 0 2 (inputString s)) - 48\<rparr>"

definition handle_command ::
  "uint32 \<Rightarrow> 'a controller_scheme \<Rightarrow> 'a controller_scheme \<times> event list" where
  "handle_command now s =
     (if length (inputString s) > 0 then
        (let (s', evs) = apply_command now (decode s)
         in (s'\<lparr>inputString := []\<rparr>, println (inputString s) # evs))
      else (s, []))"

section \<open>The extended sketch: three commands\<close>

record simple_state = controller +
  category :: uint32

record extended_state = simple_state +
  activity :: string

definition STOP_RECORDING_ext :: int where
  "STOP_RECORDING_ext = 0"

definition NAME_ACTIVITY :: int where
  "NAME_ACTIVITY = 1"

definition START_RECORDING_ext :: int where
  "START_RECORDING_ext = 2"

text \<open>The \<open>if\<close> chain of \<open>nrf52_with_hall.ino\<close> 138-150.\<close>

definition apply_command_ext ::
  "uint32 \<Rightarrow> extended_state \<Rightarrow> extended_state \<times> event list" where
  "apply_command_ext now s =
     (if currentCommand s = STOP_RECORDING_ext then
        (s\<lparr>currentRecordingState := STOPPED\<rparr>,
         [println ''received STOP_RECORDING command''])
      else if currentCommand s = START_RECORDING_ext then
        (s\<lparr>currentRecordingState := RECORDING, elapsedStartMillis := now\<rparr>,
         [println ''received START_RECORDING command''])
      else if currentCommand s = NAME_ACTIVITY then
        (s\<lparr>activity := substring_from 2 (inputString s)\<rparr>,
         [println ''received NAME_ACTIVITY command''])
      else (s, []))"

text \<open>The command block of \<open>nrf52_with_hall.ino\<close> 129-153.\<close>

definition handle_command_ext ::
  "uint32 \<Rightarrow> extended_state \<Rightarrow> extended_state \<times> event list" where
  "handle_command_ext now s =
     (if length (inputString s) > 0 then
        (let foo = toInt (substring 0 2 (inputString s));
             (s', evs) = apply_command_ext now (decode s)
         in (s'\<lparr>inputString := []\<rparr>,
             [println (inputString s), Serial ''foo is '', println (show_int foo)] @ evs))
      else (s, []))"

section \<open>Memory of the character arrays\<close>

text \<open>
  An array is the list of its bytes. Reading or writing outside it has no defined
  behaviour in C; the model stops there with the offending index. \<open>exit(1)\<close> stops the
  program too, after what it has printed.
\<close>

datatype stop = Exit int "event list" | OutOfBounds nat

text \<open>\<open>strlen\<close> runs to the first NUL, and off the array when there is none.\<close>

definition strlen :: "char list \<Rightarrow> stop + nat" where
  "strlen buf = (if NUL \<in> set buf then Inr (length (takeWhile (\<lambda>c. c \<noteq> NUL) buf))
                 else Inl (OutOfBounds (length buf)))"

text \<open>
  \<open>snprintf(buf + dst, n, ...)\<close> with the formatted text already built: for \<open>n = 0\<close>
  nothing is written; otherwise at most \<open>n - 1\<close> characters and a NUL are written. The
  result is the length of the whole text, whether or not it was cut.
\<close>

definition snprintf :: "char list \<Rightarrow> nat \<Rightarrow> nat \<Rightarrow> string \<Rightarrow> stop + char list \<times> int" where
  "snprintf buf dst n text =
     (if n = 0 then Inr (buf, int (length text))
      else (let out = take (n - 1) text @ [NUL]
            in if dst + length out \<le> length buf
               then Inr (take dst buf @ out @ drop (dst + length out) buf, int (length text))
               else Inl (OutOfBounds (max dst (length buf)))))"

text \<open>\<open>sprintf(buf, ...)\<close> writes the whole text and a NUL, whatever the array's size.\<close>

definition sprintf :: "char list \<Rightarrow> string \<Rightarrow> stop + char list" where
  "sprintf buf text =
     (if length text + 1 \<le> length buf
      then Inr (text @ [NUL] @ drop (length text + 1) buf)
      else Inl (OutOfBounds (length buf)))"

text \<open>
  \<open>writeAll(str)\<close>: \<open>Serial.write(str)\<close> and \<open>bleuart.write(str)\<close> each send the
  \<open>strlen(str)\<close> bytes before the NUL.
\<close>

definition writeAll :: "char list \<Rightarrow> stop + event list" where
  "writeAll str = (case strlen str of
                     Inl e \<Rightarrow> Inl e
                   | Inr n \<Rightarrow> Inr [Serial (take n str), Ble (take n str)])"

text \<open>Sequencing of two phases of a tick: the first stop ends the tick.\<close>

definition and_then ::
  "stop + 's \<times> event list \<Rightarrow> ('s \<Rightarrow> stop + 's \<times> event list) \<Rightarrow> stop + 's \<times> event list" where
  "and_then r f =
     (case r of
        Inl e \<Rightarrow> Inl e
      | Inr (s, evs) \<Rightarrow>
          (case f s of
             Inl (Exit c evs') \<Rightarrow> Inl (Exit c (evs @ evs'))
           | Inl (OutOfBounds k) \<Rightarrow> Inl (OutOfBounds k)
           | Inr (s', evs') \<Rightarrow> Inr (s', evs @ evs')))"

text \<open>The bytes sent on the BLE UART, in order.\<close>

fun ble_sent :: "event list \<Rightarrow> string list" where
  "ble_sent [] = []"
| "ble_sent (Ble m # evs) = m # ble_sent evs"
| "ble_sent (Serial m # evs) = ble_sent evs"

section \<open>The simple and extended sketches: one message per sample\<close>

text \<open>
  \<open>main.cpp\<close> 168-176. \<open>stack\<close> is what the 64 bytes of the local \<open>outputBuf\<close> hold
  before \<open>sprintf\<close>; \<open>adc\<close> is what \<open>analogRead\<close> returns and \<open>now\<close> what \<open>millis()\<close>
  returns.
\<close>

definition send_sample ::
  "char list \<Rightarrow> uint32 \<Rightarrow> uint32 \<Rightarrow> simple_state \<Rightarrow> stop + simple_state \<times> event list" where
  "send_sample stack now adc s =
     (if currentRecordingState s = RECORDING then
        (let s1 = s\<lparr>hallValue := adc\<rparr>
         in case sprintf stack (fmt_i (category s1) @ '':'' @
                                fmt_lu (now - elapsedStartMillis s1) @ '':'' @
                                fmt_lu (hallValue s1)) of
              Inl e \<Rightarrow> Inl e
            | Inr outputBuf \<Rightarrow>
                (case writeAll outputBuf of
                   Inl e \<Rightarrow> Inl e
                 | Inr evs \<Rightarrow> Inr (s1, evs)))
      else Inr (s, []))"

text \<open>
  \<open>nrf52_with_hall.ino\<close> 155-163: \<open>hallValue\<close> is an \<open>int\<close> here, all three fields are
  printed with \<open>%i\<close>, and \<open>bleuart.write(buffer, sizeof(buffer))\<close> sends the whole
  array of 32 bytes.
\<close>

definition send_sample_ext ::
  "char list \<Rightarrow> uint32 \<Rightarrow> uint32 \<Rightarrow> extended_state \<Rightarrow> stop + extended_state \<times> event list" where
  "send_sample_ext stack now adc s =
     (if currentRecordingState s = RECORDING then
        (let s1 = s\<lparr>hallValue := adc\<rparr>
         in case sprintf stack (fmt_i (category s1) @ '':'' @
                                fmt_i (now - elapsedStartMillis s1) @ '':'' @
                                fmt_i (hallValue s1)) of
              Inl e \<Rightarrow> Inl e
            | Inr buffer \<Rightarrow> Inr (s1, [Ble buffer]))
      else Inr (s, []))"

text \<open>One pass of \<open>loop()\<close> in each of the two sketches; \<open>delay(500)\<close> only passes time.\<close>

definition loop_simple ::
  "uint8 list \<Rightarrow> uint32 \<Rightarrow> char list \<Rightarrow> uint32 \<Rightarrow> uint32 \<Rightarrow> simple_state
     \<Rightarrow> stop + simple_state \<times> event list" where
  "loop_simple rx t_cmd stack t_sample adc s =
     and_then (Inr (handle_command t_cmd (read_available rx s)))
              (send_sample stack t_sample adc)"

definition loop_ext ::
  "uint8 list \<Rightarrow> uint32 \<Rightarrow> char list \<Rightarrow> uint32 \<Rightarrow> uint32 \<Rightarrow> extended_state
     \<Rightarrow> stop + extended_state \<times> event list" where
  "loop_ext rx t_cmd stack t_sample adc s =
     and_then (Inr (handle_command_ext t_cmd (read_available rx s)))
              (send_sample_ext stack t_sample adc)"

section \<open>The batched sketch: frame buffer and flush\<close>

definition sizeof_outputBuffer :: nat where
  "sizeof_outputBuffer = 1024"

text \<open>
  \<open>endOfBuffer\<close> is kept as its distance from \<open>outputBuffer\<close>; \<open>remainingSpace\<close> is the
  \<open>unsigned int\<close> of the source.
\<close>

record batched_state = controller +
  metricTypeCode :: uint32
  outputBuffer :: "char list"
  endOfBuffer :: nat
  remainingSpace :: uint32
  lastSendTimeMillis :: uint32
  metricsSendFrequencyMs :: uint32
  recordingFrequencyMs :: uint32

definition resetOutputBuffer :: "batched_state \<Rightarrow> batched_state" where
  "resetOutputBuffer s =
     s\<lparr>endOfBuffer := 0,
       remainingSpace := word_of_nat sizeof_outputBuffer,
       outputBuffer := replicate sizeof_outputBuffer NUL\<rparr>"

text \<open>The text of one record, \<open>"%i:%lu:%lu;"\<close>.\<close>

definition format_record :: "uint32 \<Rightarrow> uint32 \<Rightarrow> uint32 \<Rightarrow> string" where
  "format_record code elapsed v = fmt_i code @ '':'' @ fmt_lu elapsed @ '':'' @ fmt_lu v @ '';''"

text \<open>
  \<open>part_000\<close> 193-208: the append of one record. \<open>now\<close> is what \<open>millis()\<close> returns in
  the argument list.
\<close>

definition append :: "uint32 \<Rightarrow> batched_state \<Rightarrow> stop + batched_state \<times> event list" where
  "append now s =
     (case snprintf (outputBuffer s) (endOfBuffer s) (unat (remainingSpace s))
             (format_record (metricTypeCode s) (now - elapsedStartMillis s) (hallValue s)) of
        Inl e \<Rightarrow> Inl e
      | Inr (buf, writtenBytes) \<Rightarrow>
          if writtenBytes > 0 then
            Inr (s\<lparr>outputBuffer := buf,
                   endOfBuffer := endOfBuffer s + nat writtenBytes,
                   remainingSpace := remainingSpace s - word_of_int writtenBytes\<rparr>, [])
          else Inl (Exit 1 [Serial ''Something is wrong with the buffer'']))"

text \<open>\<open>part_000\<close> 188-209.\<close>

definition record_sample ::
  "uint32 \<Rightarrow> uint32 \<Rightarrow> batched_state \<Rightarrow> stop + batched_state \<times> event list" where
  "record_sample now adc s =
     (if currentRecordingState s = RECORDING then append now (s\<lparr>hallValue := adc\<rparr>)
      else Inr (s, []))"

text \<open>
  \<open>part_000\<close> 213-218, the body of the flush. The index \<open>strlen(outputBuffer) - 1\<close> is
  computed in \<open>size_t\<close>; \<open>sent\<close> is what \<open>millis()\<close> returns on line 218.
\<close>

definition flush :: "uint32 \<Rightarrow> batched_state \<Rightarrow> stop + batched_state \<times> event list" where
  "flush sent s =
     (case strlen (outputBuffer s) of
        Inl e \<Rightarrow> Inl e
      | Inr n \<Rightarrow>
          (let i = unat (word_of_nat n - 1 :: uint32)
           in if i < length (outputBuffer s) then
                (case writeAll ((outputBuffer s)[i := NUL]) of
                   Inl e \<Rightarrow> Inl e
                 | Inr evs \<Rightarrow> Inr ((resetOutputBuffer s)\<lparr>lastSendTimeMillis := sent\<rparr>, evs))
              else Inl (OutOfBounds i)))"

definition should_flush :: "uint32 \<Rightarrow> batched_state \<Rightarrow> bool" where
  "should_flush now s = (now - lastSendTimeMillis s > metricsSendFrequencyMs s)"

definition flush_if_due ::
  "uint32 \<Rightarrow> uint32 \<Rightarrow> batched_state \<Rightarrow> stop + batched_state \<times> event list" where
  "flush_if_due now sent s = (if should_flush now s then flush sent s else Inr (s, []))"

text \<open>One pass of \<open>loop()\<close> of the batched sketch.\<close>

definition loop_batched ::
  "uint8 list \<Rightarrow> uint32 \<Rightarrow> uint32 \<Rightarrow> uint32 \<Rightarrow> uint32 \<Rightarrow> uint32 \<Rightarrow> batched_state
     \<Rightarrow> stop + batched_state \<times> event list" where
  "loop_batched rx t_cmd t_sample adc t_check t_sent s =
     and_then (and_then (Inr (handle_command t_cmd (read_available rx s)))
                        (record_sample t_sample adc))
              (flush_if_due t_check t_sent)"

text \<open>The globals of the batched sketch as their initialisers leave them.\<close>

definition init_batched :: batched_state where
  "init_batched =
     \<lparr>elapsedStartMillis = 0, inputString = [], currentCommand = 0,
      currentRecordingState = STOPPED, hallValue = 0,
      metricTypeCode = 1, outputBuffer = replicate sizeof_outputBuffer NUL,
      endOfBuffer = 0, remainingSpace = word_of_nat sizeof_outputBuffer,
      lastSendTimeMillis = 0, metricsSendFrequencyMs = 1000, recordingFrequencyMs = 200\<rparr>"

text \<open>Successive samples \<open>(now, adc)\<close>, each the sampling part of one pass of \<open>loop()\<close>.\<close>

definition run_samples ::
  "(uint32 \<times> uint32) list \<Rightarrow> batched_state \<Rightarrow> stop + batched_state \<times> event list" where
  "run_samples samples s =
     foldl (\<lambda>r (now, adc). and_then r (record_sample now adc)) (Inr (s, [])) samples"

text \<open>
  \<open>millis()\<close> is the time since power-on in milliseconds, held in 32 bits: \<open>t\<close>
  milliseconds after power-on it returns \<open>t\<close> modulo \<open>2 ^ 32\<close>.
\<close>

definition millis :: "nat \<Rightarrow> uint32" where
  "millis t = word_of_nat t"

section \<open>Runs of the batched sketch\<close>












section \<open>Example states\<close>

definition recording_at_1000 :: controller where
  "recording_at_1000 =
     \<lparr>elapsedStartMillis = 1000, inputString = [], currentCommand = 1,
      currentRecordingState = RECORDING, hallValue = 0\<rparr>"

definition stopped_idle :: controller where
  "stopped_idle =
     \<lparr>elapsedStartMillis = 1000, inputString = [], currentCommand = 0,
      currentRecordingState = STOPPED, hallValue = 0\<rparr>"

definition init_ext :: extended_state where
  "init_ext =
     \<lparr>elapsedStartMillis = 0, inputString = [], currentCommand = 0,
      currentRecordingState = STOPPED, hallValue = 0, category = 1, activity = ''unnamed''\<rparr>"

definition ext_recording_at_1000 :: extended_state where
  "ext_recording_at_1000 =
     init_ext\<lparr>elapsedStartMillis := 1000, currentCommand := 2,
              currentRecordingState := RECORDING\<rparr>"

definition init_simple :: simple_state where
  "init_simple =
     \<lparr>elapsedStartMillis = 0, inputString = [], currentCommand = 0,
      currentRecordingState = STOPPED, hallValue = 0, category = 1\<rparr>"

text \<open>The batched sketch after the byte \<open>'1'\<close> has started a recording at time 0.\<close>

definition recording_batched :: batched_state where
  "recording_batched = init_batched\<lparr>currentCommand := 1, currentRecordingState := RECORDING\<rparr>"






text \<open>The extended sketch recording since time 0.\<close>

definition ext_recording_at_0 :: extended_state where
  "ext_recording_at_0 = init_ext\<lparr>currentCommand := 2, currentRecordingState := RECORDING\<rparr>"

text \<open>Some content of the 32 bytes of stack that the local \<open>buffer\<close> comes to occupy.\<close>

definition stale_stack :: "char list" where
  "stale_stack = replicate 32 (CHR 0x55)"

section \<open>Formatted text and C strings\<close>

lemma digit_not_NUL: "k < 10 \<Longrightarrow> NUL \<noteq> ''0123456789'' ! k"
  by (auto simp: less_Suc_eq numeral_eq_Suc NUL_def)

lemma dec_no_NUL: "NUL \<notin> set (dec n)"
proof (induction n rule: dec.induct)
  case (1 n)
  show ?case
  proof (cases "n < 10")
    case True
    then show ?thesis by (subst dec.simps) (simp add: digit_not_NUL)
  next
    case False
    then show ?thesis using 1 by (subst dec.simps) (simp add: digit_not_NUL)
  qed
qed

lemma dec_nonempty: "dec n \<noteq> []"
  by (subst dec.simps) simp

lemma length_dec_le: "0 < k \<Longrightarrow> n < 10 ^ k \<Longrightarrow> length (dec n) \<le> k"
proof (induction k arbitrary: n)
  case 0
  then show ?case by simp
next
  case (Suc k)
  show ?case
  proof (cases "n < 10")
    case True
    then show ?thesis by (subst dec.simps) simp
  next
    case False
    then have k: "0 < k" using Suc.prems by (cases k) auto
    have "n div 10 < 10 ^ k" using Suc.prems by (simp add: less_mult_imp_div_less mult.commute)
    then have "length (dec (n div 10)) \<le> k" using Suc.IH k by blast
    then show ?thesis using False by (subst dec.simps) simp
  qed
qed

lemma length_fmt_lu: "length (fmt_lu w) \<le> 10"
proof -
  have "unat w < 2 ^ 32" using unsigned_less [of w] by simp
  then have "unat w < 10 ^ 10" by simp
  then show ?thesis unfolding fmt_lu_def by (intro length_dec_le) simp_all
qed

lemma length_fmt_i: "length (fmt_i w) \<le> 11"
proof -
  have b: "- (2 ^ 31) \<le> sint w" "sint w < 2 ^ 31"
    using sint_ge [of w] sint_lt [of w] by simp_all
  have "nat (- sint w) < 10 ^ 10" "nat (sint w) < 10 ^ 10" using b by simp_all
  then have "length (dec (nat (- sint w))) \<le> 10" "length (dec (nat (sint w))) \<le> 10"
    by (simp_all add: length_dec_le)
  then show ?thesis by (simp add: fmt_i_def show_int_def)
qed

lemma fmt_lu_no_NUL: "NUL \<notin> set (fmt_lu w)"
  by (simp add: fmt_lu_def dec_no_NUL)

lemma fmt_i_no_NUL: "NUL \<notin> set (fmt_i w)"
proof -
  have "NUL \<noteq> CHR ''-''" by (simp add: NUL_def)
  then show ?thesis by (simp add: fmt_i_def show_int_def dec_no_NUL)
qed

lemma unat_millis_diff:
  "t0 \<le> t \<Longrightarrow> unat (word_of_nat t - word_of_nat t0 :: uint32) = (t - t0) mod 2 ^ 32"
  by (simp add: of_nat_diff [symmetric] unat_of_nat del: of_nat_diff)


lemma takeWhile_to_NUL:
  "NUL \<notin> set body \<Longrightarrow> takeWhile (\<lambda>c. c \<noteq> NUL) (body @ NUL # rest) = body"
  by (induction body) auto

lemma strlen_cstring:
  "NUL \<notin> set body \<Longrightarrow> strlen (body @ NUL # rest) = Inr (length body)"
  by (simp add: strlen_def takeWhile_to_NUL)

lemma writeAll_cstring:
  "NUL \<notin> set body \<Longrightarrow> writeAll (body @ NUL # rest) = Inr [Serial body, Ble body]"
  by (simp add: writeAll_def strlen_cstring)

lemma sample_text_no_NUL:
  "NUL \<notin> set (fmt_i a @ '':'' @ fmt_lu b @ '':'' @ fmt_lu c)"
proof -
  have "NUL \<noteq> CHR '':''" by (simp add: NUL_def)
  then show ?thesis by (simp add: fmt_i_no_NUL fmt_lu_no_NUL)
qed

lemma sample_text_length:
  "length (fmt_i a @ '':'' @ fmt_lu b @ '':'' @ fmt_lu c) \<le> 33"
  using length_fmt_i [of a] length_fmt_lu [of b] length_fmt_lu [of c] by simp

lemma send_sample_one_message:
  assumes "currentRecordingState s = RECORDING" and "length stack = 64"
  shows "send_sample stack now adc s =
           Inr (s\<lparr>hallValue := adc\<rparr>,
                [Serial (fmt_i (category s) @ '':'' @ fmt_lu (now - elapsedStartMillis s) @
                         '':'' @ fmt_lu adc),
                 Ble (fmt_i (category s) @ '':'' @ fmt_lu (now - elapsedStartMillis s) @
                      '':'' @ fmt_lu adc)])"
proof -
  let ?t = "fmt_i (category s) @ '':'' @ fmt_lu (now - elapsedStartMillis s) @ '':'' @ fmt_lu adc"
  have len: "length ?t + 1 \<le> length stack"
    using sample_text_length [of "category s" "now - elapsedStartMillis s" adc] assms(2)
    by simp
  have sp: "sprintf stack ?t = Inr (?t @ NUL # drop (length ?t + 1) stack)"
    using len by (simp add: sprintf_def)
  have wa: "writeAll (?t @ NUL # drop (length ?t + 1) stack) = Inr [Serial ?t, Ble ?t]"
    by (rule writeAll_cstring) (rule sample_text_no_NUL)
  show ?thesis
    using assms(1) sp wa by (simp add: send_sample_def Let_def)
qed


lemma format_record_nonempty: "0 < length (format_record a b c)"
  by (simp add: format_record_def)

lemma append_fits:
  assumes len: "length (format_record (metricTypeCode s) (now - elapsedStartMillis s) (hallValue s))
                  < unat (remainingSpace s)"
    and inv: "endOfBuffer s + unat (remainingSpace s) = length (outputBuffer s)"
  shows "append now s =
           Inr (s\<lparr>outputBuffer :=
                    take (endOfBuffer s) (outputBuffer s) @
                    format_record (metricTypeCode s) (now - elapsedStartMillis s) (hallValue s) @
                    NUL # drop (endOfBuffer s + length (format_record (metricTypeCode s)
                                  (now - elapsedStartMillis s) (hallValue s)) + 1) (outputBuffer s),
                  endOfBuffer := endOfBuffer s + length (format_record (metricTypeCode s)
                                  (now - elapsedStartMillis s) (hallValue s)),
                  remainingSpace := remainingSpace s - word_of_nat (length (format_record
                                  (metricTypeCode s) (now - elapsedStartMillis s) (hallValue s)))\<rparr>,
                [])"
proof -
  let ?r = "format_record (metricTypeCode s) (now - elapsedStartMillis s) (hallValue s)"
  have n0: "unat (remainingSpace s) \<noteq> 0" using len by simp
  have tk: "take (unat (remainingSpace s) - 1) ?r = ?r" using len by simp
  have fit: "endOfBuffer s + length (?r @ [NUL]) \<le> length (outputBuffer s)"
    using len inv by simp
  have sn: "snprintf (outputBuffer s) (endOfBuffer s) (unat (remainingSpace s)) ?r =
              Inr (take (endOfBuffer s) (outputBuffer s) @ (?r @ [NUL]) @
                   drop (endOfBuffer s + length (?r @ [NUL])) (outputBuffer s), int (length ?r))"
    unfolding snprintf_def Let_def using n0 tk fit by simp
  show ?thesis
    unfolding append_def sn using format_record_nonempty [of "metricTypeCode s"
        "now - elapsedStartMillis s" "hallValue s"]
    by simp
qed




lemma dec_digit: "n < 10 \<Longrightarrow> dec n = [''0123456789'' ! n]"
  by (subst dec.simps) simp

lemma dec_step: "\<not> n < 10 \<Longrightarrow> dec n = dec (n div 10) @ [''0123456789'' ! (n mod 10)]"
  by (subst dec.simps) simp

lemmas format_defs = format_record_def fmt_i_def fmt_lu_def show_int_def dec_digit dec_step

lemma fmt_lu_millis_diff:
  "t0 \<le> t \<Longrightarrow> fmt_lu (millis t - millis t0) = dec ((t - t0) mod 2 ^ 32)"
  by (simp add: fmt_lu_def millis_def unat_millis_diff)

lemma unat_minus_1: "unat (- 1 :: uint32) = 4294967295"
  by (simp add: unsigned_minus_1_eq_mask mask_eq_exp_minus_1)

lemma word_of_nat_Suc_minus_1: "unat (word_of_nat (Suc n) - 1 :: uint32) = n mod 2 ^ 32"
  by (simp add: unat_of_nat)

section \<open>Commands\<close>

lemma substring_0_2: "substring 0 2 s = take 2 s"
  by (simp add: substring_def Let_def min_def)

lemma substring_from_2: "substring_from 2 s = drop 2 s"
  by (simp add: substring_from_def substring_def Let_def)

lemmas command_values =
  STOP_RECORDING_def START_RECORDING_def
  STOP_RECORDING_ext_def START_RECORDING_ext_def NAME_ACTIVITY_def

lemmas parse_defs = toInt_def atol_def substring_def isspace_def isdigit_def



text \<open>
  In the extended sketch, when the first two characters of the accumulated text give the
  Name action, the text from offset 2 to its end becomes the activity name.
\<close>

lemma rename_sets_activity:
  assumes "inputString x \<noteq> []"
    and "toInt (substring 0 2 (inputString x)) - 48 = NAME_ACTIVITY"
  shows "activity (fst (handle_command_ext now x)) = drop 2 (inputString x)"
  using assms
  by (simp add: Let_def handle_command_ext_def apply_command_ext_def decode_def
        command_values substring_from_2)

text \<open>
  The accumulated text is made of decimal digits only, whatever bytes arrive: each byte
  is appended as the digits of its number.
\<close>

lemma digit_char: "k < 10 \<Longrightarrow> ''0123456789'' ! k \<in> set ''0123456789''"
  by (rule nth_mem) simp

lemma dec_digits: "set (dec n) \<subseteq> set ''0123456789''"
proof (induction n rule: dec.induct)
  case (1 n)
  show ?case
  proof (cases "n < 10")
    case True
    then show ?thesis using digit_char [of n] by (simp add: dec_digit)
  next
    case False
    have "n mod 10 < 10" by simp
    then have "''0123456789'' ! (n mod 10) \<in> set ''0123456789''" by (rule digit_char)
    then show ?thesis using False 1 by (simp add: dec_step)
  qed
qed

lemma read_available_digits:
  "set (inputString (read_available rx s)) \<subseteq> set (inputString s) \<union> set ''0123456789''"
proof (induction rx arbitrary: s)
  case Nil
  then show ?case by auto
next
  case (Cons ch rx)
  show ?case
    using Cons [of "s\<lparr>inputString := concat_uchar (inputString s) ch\<rparr>"] dec_digits [of "unat ch"]
    by (auto simp: concat_uchar_def)
qed

text \<open>
  C6, at a failing input. The extended sketch in its initial state receives the three
  bytes of \<open>1co\<close>: the action Name with the free text \<open>co\<close>. The accumulated text is
  \<open>4999111\<close>, the action parsed from \<open>49\<close> is Name, and the activity becomes \<open>99111\<close>,
  the digits of the codes of \<open>c\<close> and \<open>o\<close>, not \<open>co\<close>.
\<close>

theorem name_command_stores_digits:
  "loop_ext [49, 99, 111] 0 stale_stack 0 0 init_ext =
     Inr (init_ext\<lparr>currentCommand := 1, activity := ''99111''\<rparr>,
          [println ''4999111'', Serial ''foo is '', println ''49'',
           println ''received NAME_ACTIVITY command'']) \<and>
   ''99111'' \<noteq> ''co''"
  by (simp add: loop_ext_def and_then_def handle_command_ext_def decode_def
        apply_command_ext_def send_sample_ext_def Let_def init_ext_def concat_uchar_def
        substring_from_2 show_int_def dec_digit dec_step parse_defs command_values)

text \<open>
  C7. Applying Start sets the state to RECORDING and the origin to the current time,
  whatever the state was before; applying Stop to a state that is already STOPPED returns
  that state unchanged. Both hold for the \<open>if\<close> chain of the simple and batched sketches
  and for that of the extended sketch.
\<close>

theorem start_rearms_and_stop_is_idle:
  fixes s :: "'a controller_scheme" and x :: extended_state
  shows "(currentCommand s = START_RECORDING \<longrightarrow>
            currentRecordingState (fst (apply_command now s)) = RECORDING \<and>
            elapsedStartMillis (fst (apply_command now s)) = now)
       \<and> (currentCommand s = STOP_RECORDING \<and> currentRecordingState s = STOPPED \<longrightarrow>
            fst (apply_command now s) = s)
       \<and> (currentCommand x = START_RECORDING_ext \<longrightarrow>
            currentRecordingState (fst (apply_command_ext now x)) = RECORDING \<and>
            elapsedStartMillis (fst (apply_command_ext now x)) = now)
       \<and> (currentCommand x = STOP_RECORDING_ext \<and> currentRecordingState x = STOPPED \<longrightarrow>
            fst (apply_command_ext now x) = x)"
  by (simp add: apply_command_def apply_command_ext_def command_values)

theorem start_rearms_and_stop_is_idle_witness:
  "currentCommand recording_at_1000 = START_RECORDING \<and>
   currentRecordingState recording_at_1000 = RECORDING \<and>
   elapsedStartMillis recording_at_1000 = 1000 \<and>
   elapsedStartMillis (fst (apply_command 5000 recording_at_1000)) = 5000 \<and>
   currentCommand ext_recording_at_1000 = START_RECORDING_ext \<and>
   elapsedStartMillis ext_recording_at_1000 = 1000 \<and>
   elapsedStartMillis (fst (apply_command_ext 5000 ext_recording_at_1000)) = 5000 \<and>
   currentCommand stopped_idle = STOP_RECORDING \<and>
   currentRecordingState stopped_idle = STOPPED \<and>
   fst (apply_command 5000 stopped_idle) = stopped_idle \<and>
   currentCommand init_ext = STOP_RECORDING_ext \<and>
   currentRecordingState init_ext = STOPPED \<and>
   fst (apply_command_ext 5000 init_ext) = init_ext"
  using start_rearms_and_stop_is_idle [of recording_at_1000 5000 ext_recording_at_1000]
    start_rearms_and_stop_is_idle [of stopped_idle 5000 init_ext]
  by (simp add: recording_at_1000_def ext_recording_at_1000_def stopped_idle_def
        init_ext_def command_values)

section \<open>Samples\<close>

text \<open>
  With the clock read as \<open>millis t\<close> at the sample and as \<open>millis t0\<close> at the Start
  before it (\<open>t0 \<le> t\<close> the true times), the elapsed field that the simple sketch sends and
  that the batched sketch writes into its buffer is the decimal text of
  \<open>(t - t0) mod 2 ^ 32\<close>, and so of \<open>t - t0\<close> itself whenever that is below \<open>2 ^ 32\<close>,
  also when the clock has wrapped in between.
\<close>

lemma elapsed_is_difference_mod_2_32:
  assumes "t0 \<le> t"
    and "currentRecordingState s = RECORDING" and "elapsedStartMillis s = millis t0"
    and "length stack = 64"
    and "elapsedStartMillis b = millis t0"
    and "length (format_record (metricTypeCode b) (millis t - millis t0) (hallValue b))
           < unat (remainingSpace b)"
    and "endOfBuffer b + unat (remainingSpace b) = length (outputBuffer b)"
  shows "(\<exists>s' evs. send_sample stack (millis t) adc s = Inr (s', evs) \<and>
            ble_sent evs = [fmt_i (category s) @ '':'' @ dec ((t - t0) mod 2 ^ 32) @ '':'' @
                            fmt_lu adc] \<and>
            (t - t0 < 2 ^ 32 \<longrightarrow>
               ble_sent evs = [fmt_i (category s) @ '':'' @ dec (t - t0) @ '':'' @ fmt_lu adc]))
       \<and> (\<exists>b'. append (millis t) b = Inr (b', []) \<and>
            outputBuffer b' = take (endOfBuffer b) (outputBuffer b) @
              (fmt_i (metricTypeCode b) @ '':'' @ dec ((t - t0) mod 2 ^ 32) @ '':'' @
               fmt_lu (hallValue b) @ '';'') @
              NUL # drop (endOfBuffer b + length (format_record (metricTypeCode b)
                            (millis t - millis t0) (hallValue b)) + 1) (outputBuffer b) \<and>
            (t - t0 < 2 ^ 32 \<longrightarrow>
               outputBuffer b' = take (endOfBuffer b) (outputBuffer b) @
                 (fmt_i (metricTypeCode b) @ '':'' @ dec (t - t0) @ '':'' @
                  fmt_lu (hallValue b) @ '';'') @
                 NUL # drop (endOfBuffer b + length (format_record (metricTypeCode b)
                               (millis t - millis t0) (hallValue b)) + 1) (outputBuffer b)))"
proof (intro conjI)
  show "\<exists>s' evs. send_sample stack (millis t) adc s = Inr (s', evs) \<and>
            ble_sent evs = [fmt_i (category s) @ '':'' @ dec ((t - t0) mod 2 ^ 32) @ '':'' @
                            fmt_lu adc] \<and>
            (t - t0 < 2 ^ 32 \<longrightarrow>
               ble_sent evs = [fmt_i (category s) @ '':'' @ dec (t - t0) @ '':'' @ fmt_lu adc])"
    using send_sample_one_message [OF assms(2) assms(4), of "millis t" adc] assms(1,3)
    by (simp add: fmt_lu_millis_diff)
next
  have "append (millis t) b = Inr (b\<lparr>outputBuffer :=
                    take (endOfBuffer b) (outputBuffer b) @
                    format_record (metricTypeCode b) (millis t - elapsedStartMillis b) (hallValue b) @
                    NUL # drop (endOfBuffer b + length (format_record (metricTypeCode b)
                                  (millis t - elapsedStartMillis b) (hallValue b)) + 1) (outputBuffer b),
                  endOfBuffer := endOfBuffer b + length (format_record (metricTypeCode b)
                                  (millis t - elapsedStartMillis b) (hallValue b)),
                  remainingSpace := remainingSpace b - word_of_nat (length (format_record
                                  (metricTypeCode b) (millis t - elapsedStartMillis b) (hallValue b)))\<rparr>,
                [])"
    using assms(5-7) by (intro append_fits) simp_all
  then show "\<exists>b'. append (millis t) b = Inr (b', []) \<and>
            outputBuffer b' = take (endOfBuffer b) (outputBuffer b) @
              (fmt_i (metricTypeCode b) @ '':'' @ dec ((t - t0) mod 2 ^ 32) @ '':'' @
               fmt_lu (hallValue b) @ '';'') @
              NUL # drop (endOfBuffer b + length (format_record (metricTypeCode b)
                            (millis t - millis t0) (hallValue b)) + 1) (outputBuffer b) \<and>
            (t - t0 < 2 ^ 32 \<longrightarrow>
               outputBuffer b' = take (endOfBuffer b) (outputBuffer b) @
                 (fmt_i (metricTypeCode b) @ '':'' @ dec (t - t0) @ '':'' @
                  fmt_lu (hallValue b) @ '';'') @
                 NUL # drop (endOfBuffer b + length (format_record (metricTypeCode b)
                               (millis t - millis t0) (hallValue b)) + 1) (outputBuffer b))"
    using assms(1,5) by (simp add: format_record_def fmt_lu_millis_diff)
qed

lemma elapsed_across_a_clock_wrap:
  "(4294967000::nat) \<le> 4294967496 \<and>
   millis 4294967000 = 4294967000 \<and> millis 4294967496 = 200 \<and>
   currentRecordingState (init_simple\<lparr>currentRecordingState := RECORDING,
      elapsedStartMillis := millis 4294967000\<rparr>) = RECORDING \<and>
   length (replicate 64 NUL) = 64 \<and>
   length (format_record (metricTypeCode (recording_batched\<lparr>elapsedStartMillis := millis 4294967000,
             hallValue := 42\<rparr>)) (millis 4294967496 - millis 4294967000) 42)
     < unat (remainingSpace recording_batched) \<and>
   endOfBuffer recording_batched + unat (remainingSpace recording_batched)
     = length (outputBuffer recording_batched) \<and>
   (\<exists>s' evs. send_sample (replicate 64 NUL) (millis 4294967496) 42
        (init_simple\<lparr>currentRecordingState := RECORDING,
           elapsedStartMillis := millis 4294967000\<rparr>) = Inr (s', evs) \<and>
      ble_sent evs = [''1:496:42'']) \<and>
   (\<exists>b'. append (millis 4294967496)
        (recording_batched\<lparr>elapsedStartMillis := millis 4294967000, hallValue := 42\<rparr>)
          = Inr (b', []) \<and>
      outputBuffer b' = ''1:496:42;'' @ NUL # replicate 1014 NUL)"
  using elapsed_is_difference_mod_2_32 [of 4294967000 4294967496
      "init_simple\<lparr>currentRecordingState := RECORDING, elapsedStartMillis := millis 4294967000\<rparr>"
      "replicate 64 NUL"
      "recording_batched\<lparr>elapsedStartMillis := millis 4294967000, hallValue := 42\<rparr>" 42]
  by (simp add: millis_def init_simple_def recording_batched_def init_batched_def
        sizeof_outputBuffer_def format_defs)

text \<open>
  C10, at a failing input. The extended sketch prints the same 32-bit difference with
  \<open>%i\<close>. Recording since time 0 and sampling the value 7 at \<open>2 ^ 31\<close> ms, the difference
  is 2147483648, which \<open>%lu\<close> prints as such, and the sketch sends the elapsed field
  \<open>-2147483648\<close>.
\<close>

theorem extended_elapsed_goes_negative:
  "millis 2147483648 - elapsedStartMillis ext_recording_at_0 = 2147483648 \<and>
   fmt_lu (millis 2147483648 - elapsedStartMillis ext_recording_at_0) = ''2147483648'' \<and>
   loop_ext [] 2147483648 stale_stack (millis 2147483648) 7 ext_recording_at_0 =
     Inr (ext_recording_at_0\<lparr>hallValue := 7\<rparr>,
          [Ble (''1:-2147483648:7'' @ NUL # replicate 16 (CHR 0x55))])"
  by (simp add: loop_ext_def and_then_def handle_command_ext_def send_sample_ext_def sprintf_def
        Let_def ext_recording_at_0_def init_ext_def stale_stack_def millis_def format_defs)

text \<open>
  C8, at a failing input. The extended sketch, recording since 1000, samples the value 42
  at 1200. The text of the sample is \<open>1:200:42\<close>, eight bytes, but the sketch sends all 32
  bytes of the local array: the text, its NUL, and 23 bytes of whatever the stack held.
  The simple sketch sends the text alone (\<open>send_sample_one_message\<close>).
\<close>

theorem extended_sends_whole_array:
  "format_record 1 200 42 = ''1:200:42;'' \<and>
   loop_ext [] 1200 stale_stack 1200 42 ext_recording_at_1000 =
     Inr (ext_recording_at_1000\<lparr>hallValue := 42\<rparr>,
          [Ble (''1:200:42'' @ NUL # replicate 23 (CHR 0x55))]) \<and>
   length (''1:200:42'' @ NUL # replicate 23 (CHR 0x55)) = 32"
  by (simp add: loop_ext_def handle_command_ext_def and_then_def send_sample_ext_def
        sprintf_def ext_recording_at_1000_def init_ext_def stale_stack_def format_defs)

section \<open>Frame buffer\<close>

text \<open>
  C5. When the buffer holds a C string that ends in a character \<open>d\<close> (the delimiter of
  the last record), the flush sends the string without that one character, then zeroes
  the buffer, sets the cursor to 0 and the remaining space to 1024, and sets the flush
  time. The witness is the run of the claim: the records \<open>1:0:5;\<close> and \<open>1:200:7;\<close>
  appended to the empty buffer, then the flush, which sends \<open>1:0:5;1:200:7\<close>.
\<close>

theorem flush_strips_last_delimiter:
  assumes "outputBuffer s = body @ d # NUL # rest"
    and "NUL \<notin> set body" and "d \<noteq> NUL"
    and "length (outputBuffer s) = sizeof_outputBuffer"
  shows "flush sent s =
           Inr (s\<lparr>endOfBuffer := 0,
                  remainingSpace := 1024,
                  outputBuffer := replicate 1024 NUL,
                  lastSendTimeMillis := sent\<rparr>,
                [Serial body, Ble body])"
proof -
  have n: "NUL \<notin> set (body @ [d])" using assms(2,3) by auto
  have sl: "strlen (outputBuffer s) = Inr (Suc (length body))"
    using strlen_cstring [OF n, of rest] assms(1) by simp
  have "length body < 1024" using assms(1,4) by (simp add: sizeof_outputBuffer_def)
  then have "length body mod 2 ^ 32 = length body" by simp
  then have i: "unat (word_of_nat (Suc (length body)) - 1 :: uint32) = length body"
    using word_of_nat_Suc_minus_1 [of "length body"] by simp
  have up: "(outputBuffer s)[length body := NUL] = body @ NUL # NUL # rest"
    using assms(1) by simp
  have wa: "writeAll (body @ NUL # NUL # rest) = Inr [Serial body, Ble body]"
    by (rule writeAll_cstring) (rule assms(2))
  have lt: "length body < length (outputBuffer s)" using assms(1) by simp
  show ?thesis
    unfolding flush_def sl using i up wa lt
    by (simp add: Let_def resetOutputBuffer_def sizeof_outputBuffer_def)
qed

theorem flush_strips_last_delimiter_witness:
  "run_samples [(0, 5), (200, 7)] recording_batched =
     Inr (recording_batched\<lparr>hallValue := 7,
            outputBuffer := ''1:0:5;1:200:7'' @ CHR '';'' # NUL # replicate 1009 NUL,
            endOfBuffer := 14, remainingSpace := 1010\<rparr>, []) \<and>
   NUL \<notin> set ''1:0:5;1:200:7'' \<and> CHR '';'' \<noteq> NUL \<and>
   length (''1:0:5;1:200:7'' @ CHR '';'' # NUL # replicate 1009 NUL) = sizeof_outputBuffer \<and>
   flush 1234 (recording_batched\<lparr>hallValue := 7,
            outputBuffer := ''1:0:5;1:200:7'' @ CHR '';'' # NUL # replicate 1009 NUL,
            endOfBuffer := 14, remainingSpace := 1010\<rparr>) =
     Inr (recording_batched\<lparr>hallValue := 7, lastSendTimeMillis := 1234\<rparr>,
          [Serial ''1:0:5;1:200:7'', Ble ''1:0:5;1:200:7''])"
  using flush_strips_last_delimiter [of "recording_batched\<lparr>hallValue := 7,
            outputBuffer := ''1:0:5;1:200:7'' @ CHR '';'' # NUL # replicate 1009 NUL,
            endOfBuffer := 14, remainingSpace := 1010\<rparr>" "''1:0:5;1:200:7''" "CHR '';''"
            "replicate 1009 NUL" 1234]
  by (simp add: run_samples_def and_then_def record_sample_def append_def snprintf_def
        recording_batched_def init_batched_def sizeof_outputBuffer_def NUL_def format_defs)

text \<open>
  C4, at a failing input. Right after power-on the buffer is empty; at the first pass
  where the clock exceeds 1000 the flush computes the index \<open>strlen(outputBuffer) - 1\<close>
  in \<open>size_t\<close>, which is \<open>2 ^ 32 - 1\<close>, and writes a NUL there: outside the buffer (on the
  32-bit machine, the byte before it).
\<close>

theorem flush_of_empty_buffer_leaves_the_array:
  "strlen (outputBuffer init_batched) = Inr 0 \<and>
   should_flush 1001 init_batched \<and>
   flush 1001 init_batched = Inl (OutOfBounds 4294967295) \<and>
   loop_batched [] 1001 1001 0 1001 1001 init_batched = Inl (OutOfBounds 4294967295)"
  by (simp add: Let_def unat_minus_1 loop_batched_def handle_command_def and_then_def
        record_sample_def flush_if_due_def should_flush_def flush_def strlen_def
        init_batched_def sizeof_outputBuffer_def)

section \<open>Frame buffer: every record fits\<close>



lemma append_keeps_sum_mod_2_32:
  "append now s = Inr (s', evs) \<Longrightarrow>
   (word_of_nat (endOfBuffer s') + remainingSpace s' :: uint32) =
     word_of_nat (endOfBuffer s) + remainingSpace s"
  by (auto simp: append_def snprintf_def Let_def split: sum.splits if_splits prod.splits)

text \<open>
  The text of a record is never empty, so \<open>snprintf\<close> never returns 0 and the branch
  with the diagnostic and \<open>exit(1)\<close> is never taken, in any state.
\<close>

lemma append_never_exits: "append now s \<noteq> Inl (Exit c evs)"
  using format_record_nonempty [of "metricTypeCode s" "now - elapsedStartMillis s" "hallValue s"]
  by (auto simp: append_def snprintf_def Let_def split: sum.splits prod.splits if_splits)




































end
